theory Spec2Isabelle
  imports Main "HOL-Library.Word"
begin

section \<open>The runtime boundary\<close>

text \<open>
  \<^verbatim>\<open>docker.go\<close> is a thin client of the container runtime. The runtime itself is not
  part of the program: it is a parameter of every operation below. What the program owns
  is which requests it sends, in which order and with which parameters, and how it turns
  the replies into its own return values and log lines.

  A Go \<^verbatim>\<open>error\<close> is identified with its message; \<^verbatim>\<open>nil\<close> is \<open>None\<close>. A Go
  \<^verbatim>\<open>string\<close> is a byte sequence, as \<open>string\<close> is here, so \<^verbatim>\<open>buf.String()\<close> and
  \<^verbatim>\<open>string(res)\<close> are the identity. A Go \<^verbatim>\<open>int\<close> that is only passed along is an
  \<open>int\<close>; the one product the program computes (the deadline, an \<^verbatim>\<open>int64\<close> count of
  nanoseconds) is a \<open>64 word\<close>, so that it wraps as the source does.
\<close>

type_synonym error = string

text \<open>Modelled from the spec: the type \<^verbatim>\<open>mount.Mount\<close> is declared by the runtime's API
  package, not by the program, which only passes mounts along. The spec describes a mount
  specification as source, target and mode.\<close>

record Mount =
  Source :: string
  Target :: string
  Mode :: string

record Ulimit =
  Name :: string
  Soft :: int
  Hard :: int

record Resources =
  Ulimits :: "Ulimit list"

text \<open>The fields of \<^verbatim>\<open>container.Config\<close> and \<^verbatim>\<open>container.HostConfig\<close> that the
  program sets; every other field keeps Go's zero value. A \<^verbatim>\<open>nil\<close> slice is \<open>[]\<close>, a
  pointer to an \<^verbatim>\<open>int\<close> is an \<open>int option\<close>.\<close>

record Config =
  Image_ref :: string
  User :: string
  Hostname :: string
  WorkingDir :: string
  NetworkDisabled :: bool
  Env :: "string list"
  StopTimeout :: "int option"

record HostConfig =
  MaskedPaths :: "string list"
  Mounts :: "Mount list"
  ReadonlyRootfs :: bool
  AutoRemove :: bool
  NetworkMode :: string
  Resources :: Resources

record StopOptions =
  Timeout :: "int option"

record ExecOptions =
  AttachStdout :: bool
  AttachStderr :: bool
  Cmd :: "string list"
  ExecEnv :: "string list"
  Privileged :: bool

record LogsOptions =
  ShowStdout :: bool
  ShowStderr :: bool

record NetworkSettings =
  IPAddress :: string

text \<open>\<^verbatim>\<open>info.NetworkSettings\<close> is a pointer: \<open>None\<close> is \<^verbatim>\<open>nil\<close>.\<close>

record ContainerJSON =
  NetworkSettings :: "NetworkSettings option"

record ExecInspect =
  ExitCode :: int

text \<open>An \<^verbatim>\<open>io.Reader\<close> as the program meets it: the bytes it delivers, followed by
  \<^verbatim>\<open>io.EOF\<close> (\<open>None\<close>) or by a read error.\<close>

record reader =
  data :: string
  fault :: "error option"

record HijackedResponse =
  Reader :: reader

text \<open>\<^verbatim>\<open>context.Background()\<close>, or a context with a deadline that many nanoseconds
  after its creation.\<close>

datatype "context" = Background | WithTimeout "64 word"

definition Second :: "64 word" where
  "Second = 1000000000"

definition Duration :: "int \<Rightarrow> 64 word" where
  "Duration n = word_of_int n"

text \<open>One request to the runtime, with the parameters the program passes. The empty
  option structs \<^verbatim>\<open>container.StartOptions{}\<close> and \<^verbatim>\<open>container.ExecStartOptions{}\<close>
  and the two \<^verbatim>\<open>nil\<close> arguments of \<^verbatim>\<open>ContainerCreate\<close> carry nothing and are left
  out.\<close>

datatype call =
    Call_ContainerCreate "context" Config HostConfig string
  | Call_ContainerStart "context" string
  | Call_ContainerStop "context" string StopOptions
  | Call_ContainerInspect "context" string
  | Call_ContainerExecCreate "context" string ExecOptions
  | Call_ContainerExecAttach "context" string
  | Call_ContainerExecInspect "context" string
  | Call_ContainerLogs "context" string LogsOptions

text \<open>The runtime client: for each operation, the reply to the last request of a history
  of requests. The runtime is stateful (a container stopped once is gone), so a reply may
  depend on everything sent before. A reply is \<open>Inl\<close> the error or \<open>Inr\<close> the value; for
  an operation that returns only an error, \<open>None\<close> is success.\<close>

record client =
  ContainerCreate :: "call list \<Rightarrow> error + string"
  ContainerStart :: "call list \<Rightarrow> error option"
  ContainerStop :: "call list \<Rightarrow> error option"
  ContainerInspect :: "call list \<Rightarrow> error + ContainerJSON"
  ContainerExecCreate :: "call list \<Rightarrow> error + string"
  ContainerExecAttach :: "call list \<Rightarrow> error + HijackedResponse"
  ContainerExecInspect :: "call list \<Rightarrow> error + ExecInspect"
  ContainerLogs :: "call list \<Rightarrow> error + reader"

record DockerService =
  client :: client

section \<open>Effects: the requests sent and the lines logged\<close>

datatype level = DebugLevel | ErrorLevel

record event =
  level :: level
  cause :: "error option"
  strs :: "(string \<times> string) list"
  message :: string

record world =
  calls :: "call list"
  logged :: "event list"

definition invoke :: "(call list \<Rightarrow> 'r) \<Rightarrow> call \<Rightarrow> world \<Rightarrow> 'r \<times> world" where
  "invoke reply c w = (let h = calls w @ [c] in (reply h, w\<lparr>calls := h\<rparr>))"

definition log_Err :: "error \<Rightarrow> (string \<times> string) list \<Rightarrow> string \<Rightarrow> world \<Rightarrow> world" where
  "log_Err err fs msg w =
     w\<lparr>logged := logged w @ [\<lparr>level = ErrorLevel, cause = Some err, strs = fs, message = msg\<rparr>]\<rparr>"

definition log_Debug :: "(string \<times> string) list \<Rightarrow> string \<Rightarrow> world \<Rightarrow> world" where
  "log_Debug fs msg w =
     w\<lparr>logged := logged w @ [\<lparr>level = DebugLevel, cause = None, strs = fs, message = msg\<rparr>]\<rparr>"

section \<open>RunImage\<close>

text \<open>The two struct literals of lines 43 to 61, with the locals \<^verbatim>\<open>masked\<close> and
  \<^verbatim>\<open>network\<close> of lines 33 to 41.\<close>

definition RunImage_masked :: "bool \<Rightarrow> string list" where
  "RunImage_masked mask_on =
     (if mask_on then [''/etc'', ''/sys'', ''/proc/tty'', ''/proc/sys'', ''/proc/sysrq-trigger'',
                    ''/proc/cmdline'', ''/proc/config.gz'', ''/proc/mounts'', ''/proc/fs'',
                    ''/proc/device-tree'', ''/proc/bus'']
      else [])"

definition RunImage_network :: "bool \<Rightarrow> string" where
  "RunImage_network networkhosted = (if networkhosted then ''host'' else '''')"

definition RunImage_Config ::
  "string \<Rightarrow> string \<Rightarrow> string \<Rightarrow> string \<Rightarrow> bool \<Rightarrow> int \<Rightarrow> string list \<Rightarrow> Config" where
  "RunImage_Config user hostname img workdir networkdisabled timeout env =
     \<lparr>Image_ref = img, User = user, Hostname = hostname, WorkingDir = workdir,
      NetworkDisabled = networkdisabled, Env = env, StopTimeout = Some timeout\<rparr>"

definition RunImage_HostConfig :: "Mount list \<Rightarrow> bool \<Rightarrow> bool \<Rightarrow> bool \<Rightarrow> HostConfig" where
  "RunImage_HostConfig mounts mask_on readonlyRootfs networkhosted =
     \<lparr>MaskedPaths = RunImage_masked mask_on, Mounts = mounts, ReadonlyRootfs = readonlyRootfs,
      AutoRemove = True, NetworkMode = RunImage_network networkhosted,
      Resources = \<lparr>Ulimits = [\<lparr>Name = ''memlock'', Soft = - 1, Hard = - 1\<rparr>]\<rparr>\<rparr>"

definition RunImage ::
  "DockerService \<Rightarrow> string \<Rightarrow> string \<Rightarrow> string \<Rightarrow> string \<Rightarrow> string \<Rightarrow> Mount list \<Rightarrow> bool \<Rightarrow> bool
     \<Rightarrow> bool \<Rightarrow> int \<Rightarrow> bool \<Rightarrow> string list \<Rightarrow> world \<Rightarrow> (bool \<times> string) \<times> world" where
  "RunImage ds name user hostname img workdir mounts mask_on readonlyRootfs networkdisabled
       timeout networkhosted env w =
     (case invoke (ContainerCreate (client ds))
             (Call_ContainerCreate Background
                (RunImage_Config user hostname img workdir networkdisabled timeout env)
                (RunImage_HostConfig mounts mask_on readonlyRootfs networkhosted) name) w of
        (Inl err, w1) \<Rightarrow>
          ((False, ''''),
           log_Err err [(''name'', name), (''image'', img)] ''container create error'' w1)
      | (Inr resp_ID, w1) \<Rightarrow>
          (let cid = resp_ID;
               w2 = log_Debug [(''name'', name), (''image'', img), (''id'', cid)]
                      ''container created'' w1
           in case invoke (ContainerStart (client ds)) (Call_ContainerStart Background cid) w2 of
                (Some err, w3) \<Rightarrow>
                  ((False, ''''),
                   log_Err err [(''name'', name), (''image'', img), (''id'', cid)]
                     ''container start error'' w3)
              | (None, w3) \<Rightarrow>
                  ((True, cid),
                   log_Debug [(''name'', name), (''image'', img), (''id'', cid)]
                     ''container started'' w3)))"

section \<open>CleanContainer\<close>

text \<open>The function has no return value and no panicking operation: its whole effect is
  the request it sends and the line it logs.\<close>

definition CleanContainer :: "DockerService \<Rightarrow> string \<Rightarrow> world \<Rightarrow> world" where
  "CleanContainer ds cid w =
     (let timeout = 1 in
      case invoke (ContainerStop (client ds))
             (Call_ContainerStop Background cid \<lparr>Timeout = Some timeout\<rparr>) w of
        (Some err, w1) \<Rightarrow> log_Err err [(''id'', cid)] ''container remove error'' w1
      | (None, w1) \<Rightarrow> log_Debug [(''id'', cid)] ''container removed'' w1)"

section \<open>GetContainerIP\<close>

text \<open>\<^verbatim>\<open>info.NetworkSettings.IPAddress\<close> reads through a pointer: on \<^verbatim>\<open>nil\<close> the Go
  runtime panics, which is a result of the model.\<close>

datatype panic = NilPointerDereference

definition GetContainerIP :: "DockerService \<Rightarrow> string \<Rightarrow> world \<Rightarrow> (panic + string) \<times> world" where
  "GetContainerIP ds cid w =
     (case invoke (ContainerInspect (client ds)) (Call_ContainerInspect Background cid) w of
        (Inl err, w1) \<Rightarrow>
          (Inr '''', log_Err err [(''id'', cid)] ''failed to get ip: container inspect error'' w1)
      | (Inr info, w1) \<Rightarrow>
          (case NetworkSettings info of
             None \<Rightarrow> (Inl NilPointerDereference, w1)
           | Some ns \<Rightarrow> (Inr (IPAddress ns), w1)))"

section \<open>ExecContainer\<close>

text \<open>\<^verbatim>\<open>io.Copy\<close> into a \<^verbatim>\<open>bytes.Buffer\<close> and \<^verbatim>\<open>io.ReadAll\<close> both read until
  \<^verbatim>\<open>io.EOF\<close> or a read error: they yield every byte the reader delivers, and the read
  error if there is one.\<close>

definition io_Copy :: "reader \<Rightarrow> string \<times> error option" where
  "io_Copy r = (data r, fault r)"

definition io_ReadAll :: "reader \<Rightarrow> string \<times> error option" where
  "io_ReadAll r = (data r, fault r)"

text \<open>\<^verbatim>\<open>stdcopy.StdCopy\<close> belongs to the runtime's library, not to the program: it is a
  parameter. Of a call on a reader the program sees how many bytes it pulled from the
  reader, what it wrote to each of the two writers, and its error.\<close>

record copied =
  consumed :: nat
  to_stdout :: string
  to_stderr :: string
  failure :: "error option"

type_synonym demux = "reader \<Rightarrow> copied"

text \<open>\<^verbatim>\<open>io.TeeReader(r, buf)\<close> writes to \<^verbatim>\<open>buf\<close> every byte that is read from
  \<^verbatim>\<open>r\<close> through it: after a consumer that pulled \<open>n\<close> bytes, \<^verbatim>\<open>buf\<close> holds the first
  \<open>n\<close> bytes of the stream (all of them when \<open>n\<close> is the stream's length or more).\<close>

definition io_TeeReader :: "reader \<Rightarrow> nat \<Rightarrow> string" where
  "io_TeeReader r n = take n (data r)"

text \<open>An \<^verbatim>\<open>io.Writer\<close> argument is \<open>None\<close> when it is \<^verbatim>\<open>nil\<close>, and otherwise the
  bytes written to it so far.\<close>

type_synonym sink = "string option"

definition sink_write :: "sink \<Rightarrow> string \<Rightarrow> sink" where
  "sink_write s bs = (case s of None \<Rightarrow> None | Some old \<Rightarrow> Some (old @ bs))"

text \<open>Lines 135 to 146: the transcript buffer and the two sinks after the copy, and the
  copy's error.\<close>

definition ExecContainer_copy ::
  "demux \<Rightarrow> sink \<Rightarrow> sink \<Rightarrow> reader \<Rightarrow> string \<times> sink \<times> sink \<times> error option" where
  "ExecContainer_copy StdCopy stdout stderr r =
     (if stdout \<noteq> None \<and> stderr \<noteq> None then
        (let c = StdCopy r
         in (io_TeeReader r (consumed c), sink_write stdout (to_stdout c),
             sink_write stderr (to_stderr c), failure c))
      else
        (let (buf, err) = io_Copy r in (buf, stdout, stderr, err)))"

text \<open>The deadline of line 108 and the options literal of lines 111 to 117.\<close>

definition ExecContainer_ctx :: "int \<Rightarrow> context" where
  "ExecContainer_ctx timeout = WithTimeout (Duration timeout * Second)"

definition ExecContainer_ExecOptions :: "string \<Rightarrow> string list \<Rightarrow> bool \<Rightarrow> ExecOptions" where
  "ExecContainer_ExecOptions cmd env privileged =
     \<lparr>AttachStdout = True, AttachStderr = True, Cmd = [''sh'', ''-c'', cmd],
      ExecEnv = env, Privileged = privileged\<rparr>"

text \<open>The result is the triple the function returns, with the two sinks as the call
  leaves them.\<close>

definition ExecContainer ::
  "DockerService \<Rightarrow> demux \<Rightarrow> string \<Rightarrow> string \<Rightarrow> int \<Rightarrow> sink \<Rightarrow> sink \<Rightarrow> string list \<Rightarrow> bool
     \<Rightarrow> world \<Rightarrow> ((int \<times> string \<times> error option) \<times> sink \<times> sink) \<times> world" where
  "ExecContainer ds StdCopy cid cmd timeout stdout stderr env privileged w =
     (let ctx = ExecContainer_ctx timeout in
      case invoke (ContainerExecCreate (client ds))
             (Call_ContainerExecCreate ctx cid
                (ExecContainer_ExecOptions cmd env privileged)) w of
        (Inl err, w1) \<Rightarrow>
          (((- 1, '''', Some err), stdout, stderr),
           log_Err err [(''id'', cid)] ''container exec create error'' w1)
      | (Inr resp_ID, w1) \<Rightarrow>
          (let w2 = log_Debug [(''id'', cid), (''exec_id'', resp_ID)]
                      ''container exec created'' w1
           in case invoke (ContainerExecAttach (client ds))
                     (Call_ContainerExecAttach ctx resp_ID) w2 of
                (Inl err, w3) \<Rightarrow>
                  (((- 1, '''', Some err), stdout, stderr),
                   log_Err err [(''id'', cid), (''exec_id'', resp_ID)]
                     ''container exec attach error'' w3)
              | (Inr outresp, w3) \<Rightarrow>
                  (let w4 = log_Debug [(''id'', cid), (''exec_id'', resp_ID)]
                              ''container exec started'' w3;
                       (buf, stdout', stderr', cerr) =
                          ExecContainer_copy StdCopy stdout stderr (Reader outresp);
                       w5 = (case cerr of
                               Some err \<Rightarrow>
                                 log_Err err [(''id'', cid), (''exec_id'', resp_ID)]
                                   ''container exec copy error'' w4
                             | None \<Rightarrow> w4)
                   in case invoke (ContainerExecInspect (client ds))
                             (Call_ContainerExecInspect ctx resp_ID) w5 of
                        (Inl err, w6) \<Rightarrow>
                          (((- 1, '''', Some err), stdout', stderr'),
                           log_Err err [(''id'', cid), (''exec_id'', resp_ID)]
                             ''container exec inspect error'' w6)
                      | (Inr inspectResp, w6) \<Rightarrow>
                          (((ExitCode inspectResp, buf, None), stdout', stderr'), w6))))"

section \<open>GetContainerLogs\<close>

definition GetContainerLogs ::
  "DockerService \<Rightarrow> string \<Rightarrow> world \<Rightarrow> (string \<times> error option) \<times> world" where
  "GetContainerLogs ds cid w =
     (case invoke (ContainerLogs (client ds))
             (Call_ContainerLogs Background cid \<lparr>ShowStdout = True, ShowStderr = True\<rparr>) w of
        (Inl err, w1) \<Rightarrow> (('''', Some err), log_Err err [(''id'', cid)] ''container logs error'' w1)
      | (Inr resp, w1) \<Rightarrow>
          (case io_ReadAll resp of
             (res, Some err) \<Rightarrow>
               (('''', Some err), log_Err err [(''id'', cid)] ''container logs read error'' w1)
           | (res, None) \<Rightarrow> ((res, None), w1)))"

section \<open>Sample runtimes\<close>

text \<open>Concrete runtimes and streams on which the theorems below are exercised. The
  steady runtime accepts every request; a container stopped once is gone, so a second
  stop fails.\<close>

fun is_stop :: "call \<Rightarrow> bool" where
  "is_stop (Call_ContainerStop _ _ _) = True"
| "is_stop _ = False"

text \<open>A multiplexed stream in the runtime's frame format: a header of eight bytes (the
  stream's number, three zero bytes, the payload's length in four bytes, big-endian),
  then the payload. Here: \<open>hello\<close> on stdout, then \<open>oops\<close> on stderr.\<close>

definition sample_stream :: string where
  "sample_stream =
     [CHR 0x01, CHR 0x00, CHR 0x00, CHR 0x00, CHR 0x00, CHR 0x00, CHR 0x00, CHR 0x06]
       @ ''hello'' @ [CHR 0x0A]
       @ [CHR 0x02, CHR 0x00, CHR 0x00, CHR 0x00, CHR 0x00, CHR 0x00, CHR 0x00, CHR 0x05]
       @ ''oops'' @ [CHR 0x0A]"

definition steady_client :: client where
  "steady_client =
     \<lparr>ContainerCreate = (\<lambda>h. Inr ''4f2a9c''),
      ContainerStart = (\<lambda>h. None),
      ContainerStop =
        (\<lambda>h. if length (filter is_stop h) \<le> 1 then None else Some ''No such container''),
      ContainerInspect =
        (\<lambda>h. Inr \<lparr>NetworkSettings = Some \<lparr>IPAddress = ''172.17.0.2''\<rparr>\<rparr>),
      ContainerExecCreate = (\<lambda>h. Inr ''e77b01''),
      ContainerExecAttach = (\<lambda>h. Inr \<lparr>Reader = \<lparr>data = sample_stream, fault = None\<rparr>\<rparr>),
      ContainerExecInspect = (\<lambda>h. Inr \<lparr>ExitCode = 0\<rparr>),
      ContainerLogs = (\<lambda>h. Inr \<lparr>data = ''hello'' @ [CHR 0x0A], fault = None\<rparr>)\<rparr>"

definition steady :: DockerService where
  "steady = \<lparr>client = steady_client\<rparr>"

definition fresh :: world where
  "fresh = \<lparr>calls = [], logged = []\<rparr>"

text \<open>A sample instance of the demultiplexer parameter, splitting the frame format above;
  it reads the whole stream.\<close>

definition frame_size :: "char \<Rightarrow> char \<Rightarrow> char \<Rightarrow> char \<Rightarrow> nat" where
  "frame_size a b c d = ((of_char a * 256 + of_char b) * 256 + of_char c) * 256 + of_char d"

fun sample_split :: "string \<Rightarrow> string \<times> string" where
  "sample_split (t # z1 # z2 # z3 # a # b # c # d # rest) =
     (let n = frame_size a b c d;
          (out, err) = sample_split (drop n rest)
      in if t = CHR 0x02 then (out, take n rest @ err) else (take n rest @ out, err))"
| "sample_split _ = ([], [])"

definition sample_StdCopy :: demux where
  "sample_StdCopy r =
     (let (out, err) = sample_split (data r)
      in \<lparr>consumed = length (data r), to_stdout = out, to_stderr = err, failure = fault r\<rparr>)"

text \<open>Variants of the steady runtime: one that is unreachable for inspection and logs,
  one whose inspection reply has no network settings, one whose reported address is
  empty, and one whose log stream breaks after its first bytes.\<close>

definition unreachable :: DockerService where
  "unreachable =
     \<lparr>client = steady_client
        \<lparr>ContainerInspect := (\<lambda>h. Inl ''connection refused''),
         ContainerLogs := (\<lambda>h. Inl ''connection refused'')\<rparr>\<rparr>"

definition no_settings :: DockerService where
  "no_settings =
     \<lparr>client = steady_client\<lparr>ContainerInspect := (\<lambda>h. Inr \<lparr>NetworkSettings = None\<rparr>)\<rparr>\<rparr>"

definition no_address :: DockerService where
  "no_address =
     \<lparr>client = steady_client
        \<lparr>ContainerInspect := (\<lambda>h. Inr \<lparr>NetworkSettings = Some \<lparr>IPAddress = ''''\<rparr>\<rparr>)\<rparr>\<rparr>"

definition broken_logs :: DockerService where
  "broken_logs =
     \<lparr>client = steady_client
        \<lparr>ContainerLogs := (\<lambda>h. Inr \<lparr>data = ''hel'', fault = Some ''unexpected EOF''\<rparr>)\<rparr>\<rparr>"

text \<open>Runtimes that refuse one step of an execution, and one whose attached stream
  breaks after its first frame.\<close>

definition exec_refused :: DockerService where
  "exec_refused =
     \<lparr>client = steady_client\<lparr>ContainerExecCreate := (\<lambda>h. Inl ''No such container'')\<rparr>\<rparr>"

definition attach_refused :: DockerService where
  "attach_refused =
     \<lparr>client = steady_client\<lparr>ContainerExecAttach := (\<lambda>h. Inl ''connection reset'')\<rparr>\<rparr>"

definition inspect_expired :: DockerService where
  "inspect_expired =
     \<lparr>client = steady_client
        \<lparr>ContainerExecInspect := (\<lambda>h. Inl ''context deadline exceeded'')\<rparr>\<rparr>"

definition broken_stream :: DockerService where
  "broken_stream =
     \<lparr>client = steady_client
        \<lparr>ContainerExecAttach :=
           (\<lambda>h. Inr \<lparr>Reader = \<lparr>data = take 14 sample_stream, fault = Some ''connection reset''\<rparr>\<rparr>),
         ContainerExecInspect := (\<lambda>h. Inr \<lparr>ExitCode = 3\<rparr>)\<rparr>\<rparr>"

text \<open>Runtimes that refuse the creation of a container, or the start of the one they
  created.\<close>

definition create_refused :: DockerService where
  "create_refused =
     \<lparr>client = steady_client\<lparr>ContainerCreate := (\<lambda>h. Inl ''No such image'')\<rparr>\<rparr>"

definition start_refused :: DockerService where
  "start_refused =
     \<lparr>client = steady_client\<lparr>ContainerStart := (\<lambda>h. Some ''OCI runtime create failed'')\<rparr>\<rparr>"

section \<open>Shared lemmas\<close>

lemma invoke_simp: "invoke reply c w = (reply (calls w @ [c]), w\<lparr>calls := calls w @ [c]\<rparr>)"
  by (simp add: invoke_def Let_def)

lemma calls_log_Err: "calls (log_Err err fs msg w) = calls w"
  by (simp add: log_Err_def)

lemma calls_log_Debug: "calls (log_Debug fs msg w) = calls w"
  by (simp add: log_Debug_def)

lemma calls_log_case:
  "calls (case cerr of Some err \<Rightarrow> log_Err err fs msg w | None \<Rightarrow> w) = calls w"
  by (simp add: log_Err_def split: option.split)

lemmas effect_defs = invoke_simp log_Err_def log_Debug_def

lemmas sample_defs = steady_def steady_client_def fresh_def unreachable_def
  no_settings_def no_address_def broken_logs_def exec_refused_def attach_refused_def
  inspect_expired_def broken_stream_def create_refused_def start_refused_def

lemma RunImage_sends_create:
  "\<exists>rest. calls (snd (RunImage ds name user hostname img workdir mounts mask_on readonlyRootfs
                        networkdisabled timeout networkhosted env w))
     = calls w @ Call_ContainerCreate Background
                   (RunImage_Config user hostname img workdir networkdisabled timeout env)
                   (RunImage_HostConfig mounts mask_on readonlyRootfs networkhosted) name # rest"
  by (simp add: RunImage_def invoke_simp calls_log_Err calls_log_Debug Let_def
           split: sum.split option.split)

section \<open>The creation parameters\<close>

text \<open>C4. Whatever the arguments and the runtime, the first request \<^const>\<open>RunImage\<close> sends
  is the create request, and its host configuration's masked paths are exactly the fixed
  list of eleven paths when the mask flag is set, and empty when it is not.\<close>

theorem RunImage_masked_paths:
  "\<exists>cfg hc rest.
     calls (snd (RunImage ds name user hostname img workdir mounts mask_on readonlyRootfs
                   networkdisabled timeout networkhosted env w))
       = calls w @ Call_ContainerCreate Background cfg hc name # rest
     \<and> MaskedPaths hc =
         (if mask_on then [''/etc'', ''/sys'', ''/proc/tty'', ''/proc/sys'', ''/proc/sysrq-trigger'',
                           ''/proc/cmdline'', ''/proc/config.gz'', ''/proc/mounts'', ''/proc/fs'',
                           ''/proc/device-tree'', ''/proc/bus'']
          else [])
     \<and> length (MaskedPaths hc) = (if mask_on then 11 else 0)"
proof -
  obtain rest where
    "calls (snd (RunImage ds name user hostname img workdir mounts mask_on readonlyRootfs
                   networkdisabled timeout networkhosted env w))
       = calls w @ Call_ContainerCreate Background
                     (RunImage_Config user hostname img workdir networkdisabled timeout env)
                     (RunImage_HostConfig mounts mask_on readonlyRootfs networkhosted) name # rest"
    using RunImage_sends_create by blast
  moreover have "MaskedPaths (RunImage_HostConfig mounts mask_on readonlyRootfs networkhosted) =
         (if mask_on then [''/etc'', ''/sys'', ''/proc/tty'', ''/proc/sys'', ''/proc/sysrq-trigger'',
                           ''/proc/cmdline'', ''/proc/config.gz'', ''/proc/mounts'', ''/proc/fs'',
                           ''/proc/device-tree'', ''/proc/bus'']
          else [])"
    by (simp add: RunImage_HostConfig_def RunImage_masked_def)
  moreover have "length (MaskedPaths (RunImage_HostConfig mounts mask_on readonlyRootfs networkhosted))
       = (if mask_on then 11 else 0)"
    by (simp add: RunImage_HostConfig_def RunImage_masked_def)
  ultimately show ?thesis by blast
qed

text \<open>C6. The create request's network mode is \<open>host\<close> exactly when the host-network flag
  is set and is the unset (empty) value otherwise; the network-disabled flag reaches the
  container configuration as given, whatever the network mode.\<close>

theorem RunImage_network_mode:
  "\<exists>cfg hc rest.
     calls (snd (RunImage ds name user hostname img workdir mounts mask_on readonlyRootfs
                   networkdisabled timeout networkhosted env w))
       = calls w @ Call_ContainerCreate Background cfg hc name # rest
     \<and> NetworkMode hc = (if networkhosted then ''host'' else '''')
     \<and> (NetworkMode hc = ''host'') = networkhosted
     \<and> NetworkDisabled cfg = networkdisabled"
proof -
  obtain rest where
    "calls (snd (RunImage ds name user hostname img workdir mounts mask_on readonlyRootfs
                   networkdisabled timeout networkhosted env w))
       = calls w @ Call_ContainerCreate Background
                     (RunImage_Config user hostname img workdir networkdisabled timeout env)
                     (RunImage_HostConfig mounts mask_on readonlyRootfs networkhosted) name # rest"
    using RunImage_sends_create by blast
  moreover have "NetworkMode (RunImage_HostConfig mounts mask_on readonlyRootfs networkhosted)
       = (if networkhosted then ''host'' else '''')"
    by (simp add: RunImage_HostConfig_def RunImage_network_def)
  moreover have "(NetworkMode (RunImage_HostConfig mounts mask_on readonlyRootfs networkhosted)
       = ''host'') = networkhosted"
    by (simp add: RunImage_HostConfig_def RunImage_network_def)
  moreover have "NetworkDisabled (RunImage_Config user hostname img workdir networkdisabled timeout env)
       = networkdisabled"
    by (simp add: RunImage_Config_def)
  ultimately show ?thesis by blast
qed

text \<open>C7. The create request always asks for auto-removal, carries the read-only-root flag
  as given, a single \<open>memlock\<close> limit with soft and hard value \<open>-1\<close> (unlimited), and the
  caller's stop timeout unchanged.\<close>

theorem RunImage_fixed_settings:
  "\<exists>cfg hc rest.
     calls (snd (RunImage ds name user hostname img workdir mounts mask_on readonlyRootfs
                   networkdisabled timeout networkhosted env w))
       = calls w @ Call_ContainerCreate Background cfg hc name # rest
     \<and> AutoRemove hc = True
     \<and> ReadonlyRootfs hc = readonlyRootfs
     \<and> Ulimits (Resources hc) = [\<lparr>Name = ''memlock'', Soft = - 1, Hard = - 1\<rparr>]
     \<and> StopTimeout cfg = Some timeout"
proof -
  obtain rest where
    "calls (snd (RunImage ds name user hostname img workdir mounts mask_on readonlyRootfs
                   networkdisabled timeout networkhosted env w))
       = calls w @ Call_ContainerCreate Background
                     (RunImage_Config user hostname img workdir networkdisabled timeout env)
                     (RunImage_HostConfig mounts mask_on readonlyRootfs networkhosted) name # rest"
    using RunImage_sends_create by blast
  moreover have "AutoRemove (RunImage_HostConfig mounts mask_on readonlyRootfs networkhosted) = True"
    and "ReadonlyRootfs (RunImage_HostConfig mounts mask_on readonlyRootfs networkhosted)
           = readonlyRootfs"
    and "Ulimits (Resources (RunImage_HostConfig mounts mask_on readonlyRootfs networkhosted))
           = [\<lparr>Name = ''memlock'', Soft = - 1, Hard = - 1\<rparr>]"
    by (simp_all add: RunImage_HostConfig_def)
  moreover have "StopTimeout (RunImage_Config user hostname img workdir networkdisabled timeout env)
       = Some timeout"
    by (simp add: RunImage_Config_def)
  ultimately show ?thesis by blast
qed

section \<open>The result of RunImage\<close>

lemma RunImage_cases:
  "fst (RunImage ds name user hostname img workdir mounts mask_on readonlyRootfs
          networkdisabled timeout networkhosted env w) =
     (case ContainerCreate (client ds)
             (calls w @ [Call_ContainerCreate Background
                (RunImage_Config user hostname img workdir networkdisabled timeout env)
                (RunImage_HostConfig mounts mask_on readonlyRootfs networkhosted) name]) of
        Inl err \<Rightarrow> (False, '''')
      | Inr i \<Rightarrow>
          (case ContainerStart (client ds)
                  (calls w @ [Call_ContainerCreate Background
                     (RunImage_Config user hostname img workdir networkdisabled timeout env)
                     (RunImage_HostConfig mounts mask_on readonlyRootfs networkhosted) name,
                     Call_ContainerStart Background i]) of
             Some err \<Rightarrow> (False, '''')
           | None \<Rightarrow> (True, i)))"
  by (simp add: RunImage_def effect_defs Let_def split: sum.split option.split)

text \<open>C1. The identifier of a created container is assigned by the runtime, and a
  successful create reply carries a non-empty one. For such a runtime \<^const>\<open>RunImage\<close>
  returns \<open>ok = true\<close> together with a non-empty identifier exactly when the create request
  and the start request that follows it both succeed, and the identifier is then the one
  the create reply carries. When the create request fails, and when the start request
  fails, it returns \<open>ok = false\<close> and the empty identifier: the identifier of a container
  that was created but did not start is not handed to the caller.\<close>

theorem RunImage_result:
  assumes "\<forall>i. ContainerCreate (client ds)
                 (calls w @ [Call_ContainerCreate Background
                    (RunImage_Config user hostname img workdir networkdisabled timeout env)
                    (RunImage_HostConfig mounts mask_on readonlyRootfs networkhosted) name])
                 = Inr i \<longrightarrow> i \<noteq> ''''"
  shows "((fst (fst (RunImage ds name user hostname img workdir mounts mask_on readonlyRootfs
                       networkdisabled timeout networkhosted env w)) = True
           \<and> snd (fst (RunImage ds name user hostname img workdir mounts mask_on readonlyRootfs
                       networkdisabled timeout networkhosted env w)) \<noteq> '''')
          \<longleftrightarrow>
            (\<exists>i. ContainerCreate (client ds)
                    (calls w @ [Call_ContainerCreate Background
                       (RunImage_Config user hostname img workdir networkdisabled timeout env)
                       (RunImage_HostConfig mounts mask_on readonlyRootfs networkhosted) name])
                    = Inr i
                \<and> ContainerStart (client ds)
                    (calls w @ [Call_ContainerCreate Background
                       (RunImage_Config user hostname img workdir networkdisabled timeout env)
                       (RunImage_HostConfig mounts mask_on readonlyRootfs networkhosted) name,
                       Call_ContainerStart Background i])
                    = None))
       \<and> (\<forall>i. ContainerCreate (client ds)
                    (calls w @ [Call_ContainerCreate Background
                       (RunImage_Config user hostname img workdir networkdisabled timeout env)
                       (RunImage_HostConfig mounts mask_on readonlyRootfs networkhosted) name])
                    = Inr i
                \<and> ContainerStart (client ds)
                    (calls w @ [Call_ContainerCreate Background
                       (RunImage_Config user hostname img workdir networkdisabled timeout env)
                       (RunImage_HostConfig mounts mask_on readonlyRootfs networkhosted) name,
                       Call_ContainerStart Background i])
                    = None
              \<longrightarrow> fst (RunImage ds name user hostname img workdir mounts mask_on readonlyRootfs
                          networkdisabled timeout networkhosted env w) = (True, i))
       \<and> (\<forall>e. ContainerCreate (client ds)
                    (calls w @ [Call_ContainerCreate Background
                       (RunImage_Config user hostname img workdir networkdisabled timeout env)
                       (RunImage_HostConfig mounts mask_on readonlyRootfs networkhosted) name])
                    = Inl e
              \<longrightarrow> fst (RunImage ds name user hostname img workdir mounts mask_on readonlyRootfs
                          networkdisabled timeout networkhosted env w) = (False, ''''))
       \<and> (\<forall>i e. ContainerCreate (client ds)
                    (calls w @ [Call_ContainerCreate Background
                       (RunImage_Config user hostname img workdir networkdisabled timeout env)
                       (RunImage_HostConfig mounts mask_on readonlyRootfs networkhosted) name])
                    = Inr i
                \<and> ContainerStart (client ds)
                    (calls w @ [Call_ContainerCreate Background
                       (RunImage_Config user hostname img workdir networkdisabled timeout env)
                       (RunImage_HostConfig mounts mask_on readonlyRootfs networkhosted) name,
                       Call_ContainerStart Background i])
                    = Some e
              \<longrightarrow> fst (RunImage ds name user hostname img workdir mounts mask_on readonlyRootfs
                          networkdisabled timeout networkhosted env w) = (False, ''''))"
  using assms
  by (auto simp add: RunImage_cases split: sum.splits option.splits)

theorem RunImage_result_witness:
  "(\<forall>i. ContainerCreate (client steady)
           (calls fresh @ [Call_ContainerCreate Background
              (RunImage_Config ''nobody'' ''sandbox'' ''alpine'' ''/work'' False 10 [''A=1''])
              (RunImage_HostConfig [] True True False) ''box'']) = Inr i
         \<longleftrightarrow> i = ''4f2a9c'')
   \<and> fst (RunImage steady ''box'' ''nobody'' ''sandbox'' ''alpine'' ''/work'' [] True True False 10
            False [''A=1''] fresh) = (True, ''4f2a9c'')
   \<and> fst (RunImage create_refused ''box'' ''nobody'' ''sandbox'' ''alpine'' ''/work'' [] True True
            False 10 False [''A=1''] fresh) = (False, '''')
   \<and> fst (RunImage start_refused ''box'' ''nobody'' ''sandbox'' ''alpine'' ''/work'' [] True True
            False 10 False [''A=1''] fresh) = (False, '''')"
proof -
  have a: "\<forall>i. ContainerCreate (client steady)
             (calls fresh @ [Call_ContainerCreate Background
                (RunImage_Config ''nobody'' ''sandbox'' ''alpine'' ''/work'' False 10 [''A=1''])
                (RunImage_HostConfig [] True True False) ''box'']) = Inr i \<longrightarrow> i \<noteq> ''''"
    by (auto simp add: sample_defs)
  have b: "\<forall>i. ContainerCreate (client create_refused)
             (calls fresh @ [Call_ContainerCreate Background
                (RunImage_Config ''nobody'' ''sandbox'' ''alpine'' ''/work'' False 10 [''A=1''])
                (RunImage_HostConfig [] True True False) ''box'']) = Inr i \<longrightarrow> i \<noteq> ''''"
    by (auto simp add: sample_defs)
  have c: "\<forall>i. ContainerCreate (client start_refused)
             (calls fresh @ [Call_ContainerCreate Background
                (RunImage_Config ''nobody'' ''sandbox'' ''alpine'' ''/work'' False 10 [''A=1''])
                (RunImage_HostConfig [] True True False) ''box'']) = Inr i \<longrightarrow> i \<noteq> ''''"
    by (auto simp add: sample_defs)
  from RunImage_result [OF a] have "fst (RunImage steady ''box'' ''nobody'' ''sandbox'' ''alpine''
      ''/work'' [] True True False 10 False [''A=1''] fresh) = (True, ''4f2a9c'')"
    by (simp add: sample_defs)
  moreover from RunImage_result [OF b] have "fst (RunImage create_refused ''box'' ''nobody''
      ''sandbox'' ''alpine'' ''/work'' [] True True False 10 False [''A=1''] fresh) = (False, '''')"
    by (simp add: sample_defs)
  moreover from RunImage_result [OF c] have "fst (RunImage start_refused ''box'' ''nobody''
      ''sandbox'' ''alpine'' ''/work'' [] True True False 10 False [''A=1''] fresh) = (False, '''')"
    by (simp add: sample_defs)
  moreover have "\<forall>i. ContainerCreate (client steady)
           (calls fresh @ [Call_ContainerCreate Background
              (RunImage_Config ''nobody'' ''sandbox'' ''alpine'' ''/work'' False 10 [''A=1''])
              (RunImage_HostConfig [] True True False) ''box'']) = Inr i
         \<longleftrightarrow> i = ''4f2a9c''"
    by (auto simp add: sample_defs)
  ultimately show ?thesis by blast
qed

section \<open>CleanContainer is best effort\<close>

text \<open>C8. \<^const>\<open>CleanContainer\<close> sends exactly one request, a stop with a timeout of one
  second, and logs exactly one line: the error when the stop failed, a debug line when it
  did not. It returns nothing to the caller in either case, so a failed stop is swallowed.
  Called twice on the same identifier it sends the same stop twice, whatever the runtime
  answers to the second.\<close>

theorem CleanContainer_one_stop:
  "calls (CleanContainer ds cid w)
     = calls w @ [Call_ContainerStop Background cid \<lparr>Timeout = Some 1\<rparr>]
   \<and> logged (CleanContainer ds cid w)
     = logged w @
       [case ContainerStop (client ds)
               (calls w @ [Call_ContainerStop Background cid \<lparr>Timeout = Some 1\<rparr>]) of
          Some err \<Rightarrow> \<lparr>level = ErrorLevel, cause = Some err, strs = [(''id'', cid)],
                        message = ''container remove error''\<rparr>
        | None \<Rightarrow> \<lparr>level = DebugLevel, cause = None, strs = [(''id'', cid)],
                    message = ''container removed''\<rparr>]
   \<and> calls (CleanContainer ds cid (CleanContainer ds cid w))
     = calls w @ [Call_ContainerStop Background cid \<lparr>Timeout = Some 1\<rparr>,
                  Call_ContainerStop Background cid \<lparr>Timeout = Some 1\<rparr>]"
  by (simp add: CleanContainer_def effect_defs Let_def split: option.split)

theorem CleanContainer_one_stop_witness:
  "calls (CleanContainer steady ''4f2a9c'' (CleanContainer steady ''4f2a9c'' fresh))
     = [Call_ContainerStop Background ''4f2a9c'' \<lparr>Timeout = Some 1\<rparr>,
        Call_ContainerStop Background ''4f2a9c'' \<lparr>Timeout = Some 1\<rparr>]
   \<and> logged (CleanContainer steady ''4f2a9c'' (CleanContainer steady ''4f2a9c'' fresh))
     = [\<lparr>level = DebugLevel, cause = None, strs = [(''id'', ''4f2a9c'')],
         message = ''container removed''\<rparr>,
        \<lparr>level = ErrorLevel, cause = Some ''No such container'', strs = [(''id'', ''4f2a9c'')],
         message = ''container remove error''\<rparr>]"
  using CleanContainer_one_stop [of steady "''4f2a9c''" fresh]
        CleanContainer_one_stop [of steady "''4f2a9c''" "CleanContainer steady ''4f2a9c'' fresh"]
  by (simp add: sample_defs)

section \<open>The inspectors\<close>

text \<open>C10. After a successful inspection \<^const>\<open>GetContainerIP\<close> reads the address through
  the network-settings pointer with no guard: it panics when the pointer is \<^verbatim>\<open>nil\<close>,
  and otherwise returns exactly the address the runtime reported, which may be empty.\<close>

theorem GetContainerIP_dereference:
  assumes "ContainerInspect (client ds) (calls w @ [Call_ContainerInspect Background cid]) = Inr info"
  shows "fst (GetContainerIP ds cid w) =
           (case NetworkSettings info of
              None \<Rightarrow> Inl NilPointerDereference
            | Some ns \<Rightarrow> Inr (IPAddress ns))"
  using assms
  by (simp add: GetContainerIP_def effect_defs split: option.split)

theorem GetContainerIP_dereference_witness:
  "fst (GetContainerIP steady ''4f2a9c'' fresh) = Inr ''172.17.0.2''
   \<and> fst (GetContainerIP no_address ''4f2a9c'' fresh) = Inr ''''
   \<and> fst (GetContainerIP no_settings ''4f2a9c'' fresh) = Inl NilPointerDereference"
proof -
  have a: "ContainerInspect (client steady)
             (calls fresh @ [Call_ContainerInspect Background ''4f2a9c''])
           = Inr \<lparr>NetworkSettings = Some \<lparr>IPAddress = ''172.17.0.2''\<rparr>\<rparr>"
    by (simp add: sample_defs)
  have b: "ContainerInspect (client no_address)
             (calls fresh @ [Call_ContainerInspect Background ''4f2a9c''])
           = Inr \<lparr>NetworkSettings = Some \<lparr>IPAddress = ''''\<rparr>\<rparr>"
    by (simp add: sample_defs)
  have c: "ContainerInspect (client no_settings)
             (calls fresh @ [Call_ContainerInspect Background ''4f2a9c''])
           = Inr \<lparr>NetworkSettings = None\<rparr>"
    by (simp add: sample_defs)
  from GetContainerIP_dereference [OF a] GetContainerIP_dereference [OF b]
       GetContainerIP_dereference [OF c]
  show ?thesis by simp
qed

text \<open>C9. When the inspection request fails, \<^const>\<open>GetContainerIP\<close> returns the empty string
  as an ordinary result. When the log request fails, or succeeds with a stream whose read
  fails, \<^const>\<open>GetContainerLogs\<close> returns that error with an empty transcript.\<close>

theorem inspectors_asymmetric:
  "(ContainerInspect (client ds) (calls w @ [Call_ContainerInspect Background cid]) = Inl e
      \<longrightarrow> fst (GetContainerIP ds cid w) = Inr '''')
   \<and> (ContainerLogs (client ds)
         (calls w @ [Call_ContainerLogs Background cid \<lparr>ShowStdout = True, ShowStderr = True\<rparr>])
         = Inl e
      \<longrightarrow> fst (GetContainerLogs ds cid w) = ('''', Some e))
   \<and> (ContainerLogs (client ds)
         (calls w @ [Call_ContainerLogs Background cid \<lparr>ShowStdout = True, ShowStderr = True\<rparr>])
         = Inr r \<and> fault r = Some e
      \<longrightarrow> fst (GetContainerLogs ds cid w) = ('''', Some e))"
  by (simp add: GetContainerIP_def GetContainerLogs_def io_ReadAll_def effect_defs)

theorem inspectors_asymmetric_witness:
  "fst (GetContainerIP unreachable ''4f2a9c'' fresh) = Inr ''''
   \<and> fst (GetContainerLogs unreachable ''4f2a9c'' fresh) = ('''', Some ''connection refused'')
   \<and> fst (GetContainerLogs broken_logs ''4f2a9c'' fresh) = ('''', Some ''unexpected EOF'')"
proof -
  have a: "ContainerInspect (client unreachable)
             (calls fresh @ [Call_ContainerInspect Background ''4f2a9c''])
           = Inl ''connection refused''"
    by (simp add: sample_defs)
  have b: "ContainerLogs (client unreachable)
             (calls fresh @ [Call_ContainerLogs Background ''4f2a9c''
                               \<lparr>ShowStdout = True, ShowStderr = True\<rparr>])
           = Inl ''connection refused''"
    by (simp add: sample_defs)
  have c: "ContainerLogs (client broken_logs)
             (calls fresh @ [Call_ContainerLogs Background ''4f2a9c''
                               \<lparr>ShowStdout = True, ShowStderr = True\<rparr>])
           = Inr \<lparr>data = ''hel'', fault = Some ''unexpected EOF''\<rparr>
           \<and> fault \<lparr>data = ''hel'', fault = Some ''unexpected EOF''\<rparr> = Some ''unexpected EOF''"
    by (simp add: sample_defs)
  from inspectors_asymmetric [of unreachable fresh "''4f2a9c''" "''connection refused''"] a b
       inspectors_asymmetric [of broken_logs fresh "''4f2a9c''" "''unexpected EOF''"
          "\<lparr>data = ''hel'', fault = Some ''unexpected EOF''\<rparr>"] c
  show ?thesis by simp
qed


section \<open>ExecContainer\<close>

text \<open>C2. A failed session creation and a failed attach each return \<open>-1\<close>, the empty
  transcript and the error. Once the attach has succeeded the inspect request is always
  sent, whatever the copy of the stream did, and its reply alone decides: \<open>-1\<close> and the
  error when it fails, and otherwise the exit code it reports, the transcript and no
  error.\<close>

theorem ExecContainer_returns:
  "(ContainerExecCreate (client ds)
      (calls w @ [Call_ContainerExecCreate (ExecContainer_ctx timeout) cid
                    (ExecContainer_ExecOptions cmd env privileged)]) = Inl e
      \<longrightarrow> fst (fst (ExecContainer ds StdCopy cid cmd timeout stdout stderr env privileged w))
            = (- 1, '''', Some e))
   \<and> (ContainerExecCreate (client ds)
        (calls w @ [Call_ContainerExecCreate (ExecContainer_ctx timeout) cid
                      (ExecContainer_ExecOptions cmd env privileged)]) = Inr x
      \<and> ContainerExecAttach (client ds)
        (calls w @ [Call_ContainerExecCreate (ExecContainer_ctx timeout) cid
                      (ExecContainer_ExecOptions cmd env privileged),
                    Call_ContainerExecAttach (ExecContainer_ctx timeout) x]) = Inl e
      \<longrightarrow> fst (fst (ExecContainer ds StdCopy cid cmd timeout stdout stderr env privileged w))
            = (- 1, '''', Some e))
   \<and> (ContainerExecCreate (client ds)
        (calls w @ [Call_ContainerExecCreate (ExecContainer_ctx timeout) cid
                      (ExecContainer_ExecOptions cmd env privileged)]) = Inr x
      \<and> ContainerExecAttach (client ds)
        (calls w @ [Call_ContainerExecCreate (ExecContainer_ctx timeout) cid
                      (ExecContainer_ExecOptions cmd env privileged),
                    Call_ContainerExecAttach (ExecContainer_ctx timeout) x]) = Inr out
      \<longrightarrow> calls (snd (ExecContainer ds StdCopy cid cmd timeout stdout stderr env privileged w))
            = calls w @ [Call_ContainerExecCreate (ExecContainer_ctx timeout) cid
                           (ExecContainer_ExecOptions cmd env privileged),
                         Call_ContainerExecAttach (ExecContainer_ctx timeout) x,
                         Call_ContainerExecInspect (ExecContainer_ctx timeout) x]
        \<and> fst (fst (ExecContainer ds StdCopy cid cmd timeout stdout stderr env privileged w))
            = (case ContainerExecInspect (client ds)
                      (calls w @ [Call_ContainerExecCreate (ExecContainer_ctx timeout) cid
                                    (ExecContainer_ExecOptions cmd env privileged),
                                  Call_ContainerExecAttach (ExecContainer_ctx timeout) x,
                                  Call_ContainerExecInspect (ExecContainer_ctx timeout) x]) of
                 Inl err \<Rightarrow> (- 1, '''', Some err)
               | Inr inspectResp \<Rightarrow>
                   (ExitCode inspectResp,
                    fst (ExecContainer_copy StdCopy stdout stderr (Reader out)), None)))"
  by (simp add: ExecContainer_def effect_defs Let_def calls_log_case
           split: prod.split sum.split option.split)


theorem ExecContainer_returns_witness:
  "fst (fst (ExecContainer exec_refused sample_StdCopy ''4f2a9c'' ''true'' 5 (Some []) (Some [])
               [] False fresh)) = (- 1, '''', Some ''No such container'')
   \<and> fst (fst (ExecContainer attach_refused sample_StdCopy ''4f2a9c'' ''true'' 5 (Some [])
               (Some []) [] False fresh)) = (- 1, '''', Some ''connection reset'')
   \<and> fst (fst (ExecContainer inspect_expired sample_StdCopy ''4f2a9c'' ''sleep 60'' 5 (Some [])
               (Some []) [] False fresh)) = (- 1, '''', Some ''context deadline exceeded'')
   \<and> fst (fst (ExecContainer broken_stream sample_StdCopy ''4f2a9c'' ''true'' 5 (Some [])
               (Some []) [] False fresh)) = (3, take 14 sample_stream, None)"
  using ExecContainer_returns [of exec_refused fresh 5 "''4f2a9c''" "''true''" "[]" False
          "''No such container''" sample_StdCopy "Some []" "Some []"]
        ExecContainer_returns [of attach_refused fresh 5 "''4f2a9c''" "''true''" "[]" False
          "''connection reset''" sample_StdCopy "Some []" "Some []" "''e77b01''"]
        ExecContainer_returns [of inspect_expired fresh 5 "''4f2a9c''" "''sleep 60''" "[]" False
          _ sample_StdCopy "Some []" "Some []" "''e77b01''"
          "\<lparr>Reader = \<lparr>data = sample_stream, fault = None\<rparr>\<rparr>"]
        ExecContainer_returns [of broken_stream fresh 5 "''4f2a9c''" "''true''" "[]" False
          _ sample_StdCopy "Some []" "Some []" "''e77b01''"
          "\<lparr>Reader = \<lparr>data = take 14 sample_stream, fault = Some ''connection reset''\<rparr>\<rparr>"]
  by (simp add: sample_defs ExecContainer_copy_def io_TeeReader_def sample_StdCopy_def
        sample_stream_def split_def Let_def)

text \<open>C3. After a successful attach: with both sinks supplied, each sink receives what the
  demultiplexer wrote for it, and the transcript is the raw bytes the demultiplexer read
  from the stream; with a sink missing, the sinks are left as they were and the
  transcript is the raw stream.\<close>

theorem ExecContainer_streams:
  assumes "ContainerExecCreate (client ds)
             (calls w @ [Call_ContainerExecCreate (ExecContainer_ctx timeout) cid
                           (ExecContainer_ExecOptions cmd env privileged)]) = Inr x"
      and "ContainerExecAttach (client ds)
             (calls w @ [Call_ContainerExecCreate (ExecContainer_ctx timeout) cid
                           (ExecContainer_ExecOptions cmd env privileged),
                         Call_ContainerExecAttach (ExecContainer_ctx timeout) x]) = Inr out"
  shows "(stdout = Some so \<and> stderr = Some se \<longrightarrow>
            snd (fst (ExecContainer ds StdCopy cid cmd timeout stdout stderr env privileged w))
              = (Some (so @ to_stdout (StdCopy (Reader out))),
                 Some (se @ to_stderr (StdCopy (Reader out))))
            \<and> (\<forall>r. ContainerExecInspect (client ds)
                      (calls w @ [Call_ContainerExecCreate (ExecContainer_ctx timeout) cid
                                    (ExecContainer_ExecOptions cmd env privileged),
                                  Call_ContainerExecAttach (ExecContainer_ctx timeout) x,
                                  Call_ContainerExecInspect (ExecContainer_ctx timeout) x]) = Inr r
                  \<longrightarrow> fst (snd (fst (fst (ExecContainer ds StdCopy cid cmd timeout stdout stderr
                                              env privileged w))))
                        = take (consumed (StdCopy (Reader out))) (data (Reader out))))
       \<and> (stdout = None \<or> stderr = None \<longrightarrow>
            snd (fst (ExecContainer ds StdCopy cid cmd timeout stdout stderr env privileged w))
              = (stdout, stderr)
            \<and> (\<forall>r. ContainerExecInspect (client ds)
                      (calls w @ [Call_ContainerExecCreate (ExecContainer_ctx timeout) cid
                                    (ExecContainer_ExecOptions cmd env privileged),
                                  Call_ContainerExecAttach (ExecContainer_ctx timeout) x,
                                  Call_ContainerExecInspect (ExecContainer_ctx timeout) x]) = Inr r
                  \<longrightarrow> fst (snd (fst (fst (ExecContainer ds StdCopy cid cmd timeout stdout stderr
                                              env privileged w))))
                        = data (Reader out)))"
  using assms
  by (auto simp add: ExecContainer_def effect_defs Let_def calls_log_case ExecContainer_copy_def
        io_TeeReader_def io_Copy_def sink_write_def
        split: prod.split sum.split option.split)

theorem ExecContainer_streams_witness:
  "snd (fst (ExecContainer steady sample_StdCopy ''4f2a9c'' ''echo hello; echo oops >&2'' 5
               (Some []) (Some []) [] False fresh))
     = (Some (''hello'' @ [CHR 0x0A]), Some (''oops'' @ [CHR 0x0A]))
   \<and> fst (snd (fst (fst (ExecContainer steady sample_StdCopy ''4f2a9c''
               ''echo hello; echo oops >&2'' 5 (Some []) (Some []) [] False fresh))))
     = sample_stream
   \<and> snd (fst (ExecContainer steady sample_StdCopy ''4f2a9c'' ''echo hello; echo oops >&2'' 5
               (Some ''log: '') None [] False fresh))
     = (Some ''log: '', None)
   \<and> fst (snd (fst (fst (ExecContainer steady sample_StdCopy ''4f2a9c''
               ''echo hello; echo oops >&2'' 5 (Some ''log: '') None [] False fresh))))
     = sample_stream"
proof -
  have c: "ContainerExecCreate (client steady)
             (calls fresh @ [Call_ContainerExecCreate (ExecContainer_ctx 5) ''4f2a9c''
                (ExecContainer_ExecOptions ''echo hello; echo oops >&2'' [] False)])
           = Inr ''e77b01''"
    by (simp add: sample_defs)
  have a: "ContainerExecAttach (client steady)
             (calls fresh @ [Call_ContainerExecCreate (ExecContainer_ctx 5) ''4f2a9c''
                (ExecContainer_ExecOptions ''echo hello; echo oops >&2'' [] False),
                Call_ContainerExecAttach (ExecContainer_ctx 5) ''e77b01''])
           = Inr \<lparr>Reader = \<lparr>data = sample_stream, fault = None\<rparr>\<rparr>"
    by (simp add: sample_defs)
  have i: "ContainerExecInspect (client steady)
             (calls fresh @ [Call_ContainerExecCreate (ExecContainer_ctx 5) ''4f2a9c''
                (ExecContainer_ExecOptions ''echo hello; echo oops >&2'' [] False),
                Call_ContainerExecAttach (ExecContainer_ctx 5) ''e77b01'',
                Call_ContainerExecInspect (ExecContainer_ctx 5) ''e77b01''])
           = Inr \<lparr>ExitCode = 0\<rparr>"
    by (simp add: sample_defs)
  have s: "sample_split sample_stream = (''hello'' @ [CHR 0x0A], ''oops'' @ [CHR 0x0A])"
    by (simp add: sample_stream_def frame_size_def)
  from ExecContainer_streams [OF c a, of "Some []" "[]" "Some []" "[]" sample_StdCopy]
       ExecContainer_streams [OF c a, of "Some ''log: ''" "''log: ''" None "[]" sample_StdCopy]
       i s
  show ?thesis by (simp add: sample_StdCopy_def)
qed

end
